theory Spec2Isabelle
  imports Main "HOL-Library.Word"
begin

section \<open>Data model of the configurator engine\<close>

text \<open>
  The embedding follows \<^verbatim>\<open>inc/ec_configurator.h\<close> (the role-agnostic base class
  \<^verbatim>\<open>ec_configurator_t\<close>) and \<^verbatim>\<open>inc/ec_pa_configurator.h\<close> (the Proxy-Agent role
  \<^verbatim>\<open>ec_pa_configurator_t\<close>). A buffer passed as pointer plus length is one byte list;
  a link-layer address is its string form, the key type of the connection map.
\<close>

type_synonym uint8_t = "8 word"
type_synonym bytes = "uint8_t list"
type_synonym cJSON = string

text \<open>
  Modelled from the spec: the three context structures are declared in headers outside
  the engine (\<^verbatim>\<open>ec_crypto.h\<close>, \<^verbatim>\<open>em_base.h\<close>). The engine's code names the members
  \<^verbatim>\<open>eph_ctx\<close>, \<^verbatim>\<open>boot_data\<close>, \<^verbatim>\<open>nonce_len\<close> and \<^verbatim>\<open>digest_len\<close> of a connection context;
  the members of the ephemeral context (nonce, digest buffers, derived session key) and of
  the bootstrapping data (enrollee address, public key, curve, channel hints) are the ones
  the data model of the spec lists.
\<close>

record ec_ephemeral_context_t =
  e_nonce :: bytes
  digest_buf :: bytes
  session_key :: bytes

record ec_data_t =
  boot_mac :: string
  responder_pub_key :: bytes
  ec_curve :: nat
  channel_hints :: "nat list"

record ec_connection_context_t =
  eph_ctx :: ec_ephemeral_context_t
  boot_data :: ec_data_t
  nonce_len :: nat
  digest_len :: nat

subsection \<open>Capability bindings\<close>

text \<open>
  The \<^verbatim>\<open>std::function\<close> aliases at the head of \<^verbatim>\<open>ec_configurator.h\<close>. A
  \<^verbatim>\<open>std::function\<close> may hold no target; the model keeps that possibility for
  \<^verbatim>\<open>can_onboard_additional_aps_func\<close>, the one binding for which the source constructs
  an empty function. The send capabilities and the IE toggle are callables that return
  their success flag.
\<close>

type_synonym send_chirp_func = "bytes \<Rightarrow> bool"
type_synonym send_encap_dpp_func = "bytes \<Rightarrow> bytes option \<Rightarrow> bool"
type_synonym send_act_frame_func = "string \<Rightarrow> bytes \<Rightarrow> nat \<Rightarrow> nat \<Rightarrow> bool"
type_synonym toggle_cce_func = "bool \<Rightarrow> bool"
type_synonym get_backhaul_sta_info_func = "ec_connection_context_t option \<Rightarrow> cJSON option"
type_synonym get_1905_info_func = "ec_connection_context_t option \<Rightarrow> cJSON option"
type_synonym can_onboard_additional_aps_func = "(unit \<Rightarrow> bool) option"

subsection \<open>The two classes\<close>

text \<open>
  The members are declared in the two headers. \<^verbatim>\<open>m_chirp_hash_frame_map\<close> is a
  \<^verbatim>\<open>std::map<std::string, std::vector<uint8_t>>\<close>: a hash in string form to the bytes of a
  frame. \<^verbatim>\<open>m_stored_recfg_auth_frames\<close> is a vector of frames.
\<close>

record ec_configurator_t =
  m_mac_addr :: string
  m_send_chirp_notification :: send_chirp_func
  m_send_prox_encap_dpp_msg :: send_encap_dpp_func
  m_send_action_frame :: send_act_frame_func
  m_get_backhaul_sta_info :: get_backhaul_sta_info_func
  m_get_1905_info :: get_1905_info_func
  m_can_onboard_additional_aps :: can_onboard_additional_aps_func
  m_connections :: "string \<rightharpoonup> ec_connection_context_t"

record ec_pa_configurator_t = ec_configurator_t +
  m_toggle_cce :: toggle_cce_func
  m_chirp_hash_frame_map :: "string \<rightharpoonup> bytes"
  m_stored_recfg_auth_frames :: "bytes list"

subsection \<open>The crypto collaborator\<close>

text \<open>
  \<^verbatim>\<open>teardown_connection\<close> and \<^verbatim>\<open>clear_conn_eph_ctx\<close> call
  \<^verbatim>\<open>ec_crypto::free_connection_ctx\<close> and \<^verbatim>\<open>ec_crypto::free_ephemeral_context\<close>, whose
  bodies are outside the engine. Both work in place on the object they are handed, so each is
  a function from the object before the call to the object after it; the engine's operations
  take the pair as a parameter and every theorem about them holds for all such pairs.
\<close>

record ec_crypto =
  free_connection_ctx :: "ec_connection_context_t \<Rightarrow> ec_connection_context_t"
  free_ephemeral_context :: "ec_ephemeral_context_t \<Rightarrow> nat \<Rightarrow> nat \<Rightarrow> ec_ephemeral_context_t"

section \<open>Base engine: lookups and teardown\<close>

text \<open>
  \<^verbatim>\<open>get_conn_ctx\<close>: \<^verbatim>\<open>NULL\<close> when \<^verbatim>\<open>find\<close> misses, otherwise the address of the
  entry; the model returns the entry the pointer designates.
\<close>

definition get_conn_ctx ::
  "string \<Rightarrow> 'a ec_configurator_t_scheme \<Rightarrow> ec_connection_context_t option" where
  "get_conn_ctx mac s =
     (if m_connections s mac = None then None else m_connections s mac)"

definition get_eph_ctx ::
  "string \<Rightarrow> 'a ec_configurator_t_scheme \<Rightarrow> ec_ephemeral_context_t option" where
  "get_eph_ctx mac s =
     (case get_conn_ctx mac s of
        None \<Rightarrow> None
      | Some conn_ctx \<Rightarrow> Some (eph_ctx conn_ctx))"

definition get_boot_data ::
  "string \<Rightarrow> 'a ec_configurator_t_scheme \<Rightarrow> ec_data_t option" where
  "get_boot_data mac s =
     (case m_connections s mac of
        None \<Rightarrow> None
      | Some conn \<Rightarrow> Some (boot_data conn))"

text \<open>
  The two free calls of \<^verbatim>\<open>teardown_connection\<close> on the entry \<^verbatim>\<open>c_ctx\<close>, in the
  source's order: the connection context first, then its ephemeral context with the lengths
  read from the context after the first call.
\<close>

definition free_entry :: "ec_crypto \<Rightarrow> ec_connection_context_t \<Rightarrow> ec_connection_context_t" where
  "free_entry cr c_ctx =
     (let c1 = free_connection_ctx cr c_ctx
      in c1\<lparr>eph_ctx := free_ephemeral_context cr (eph_ctx c1) (nonce_len c1) (digest_len c1)\<rparr>)"

text \<open>
  \<^verbatim>\<open>teardown_connection\<close>: return at once on a miss; on a hit take a reference to the
  entry and run the two free calls on it. The source has no \<^verbatim>\<open>erase\<close>: the entry the
  reference designates stays in \<^verbatim>\<open>m_connections\<close>.
\<close>

definition teardown_connection ::
  "ec_crypto \<Rightarrow> string \<Rightarrow> 'a ec_configurator_t_scheme \<Rightarrow> 'a ec_configurator_t_scheme" where
  "teardown_connection cr mac s =
     (case m_connections s mac of
        None \<Rightarrow> s
      | Some c_ctx \<Rightarrow> s\<lparr>m_connections := (m_connections s)(mac \<mapsto> free_entry cr c_ctx)\<rparr>)"

definition clear_conn_eph_ctx ::
  "ec_crypto \<Rightarrow> string \<Rightarrow> 'a ec_configurator_t_scheme \<Rightarrow> 'a ec_configurator_t_scheme" where
  "clear_conn_eph_ctx cr mac s =
     (case m_connections s mac of
        None \<Rightarrow> s
      | Some c_ctx \<Rightarrow>
          s\<lparr>m_connections := (m_connections s)(mac \<mapsto>
               c_ctx\<lparr>eph_ctx := free_ephemeral_context cr (eph_ctx c_ctx)
                                   (nonce_len c_ctx) (digest_len c_ctx)\<rparr>)\<rparr>)"

definition get_mac_addr :: "'a ec_configurator_t_scheme \<Rightarrow> string" where
  "get_mac_addr s = m_mac_addr s"

subsection \<open>Constructors\<close>

text \<open>
  Modelled from the spec: the body of the base constructor is not in the header. It binds
  the device address and the six capabilities ("bound once at construction"); the connection
  map starts empty by its in-class initialiser.
\<close>

definition ec_configurator_t ::
  "string \<Rightarrow> send_chirp_func \<Rightarrow> send_encap_dpp_func \<Rightarrow> send_act_frame_func \<Rightarrow>
   get_backhaul_sta_info_func \<Rightarrow> get_1905_info_func \<Rightarrow> can_onboard_additional_aps_func \<Rightarrow>
   ec_configurator_t" where
  "ec_configurator_t mac_addr send_chirp_notification send_prox_encap_dpp_msg send_action_frame
     backhaul_sta_info_func ieee1905_info_func can_onboard_func =
     \<lparr>m_mac_addr = mac_addr,
      m_send_chirp_notification = send_chirp_notification,
      m_send_prox_encap_dpp_msg = send_prox_encap_dpp_msg,
      m_send_action_frame = send_action_frame,
      m_get_backhaul_sta_info = backhaul_sta_info_func,
      m_get_1905_info = ieee1905_info_func,
      m_can_onboard_additional_aps = can_onboard_func,
      m_connections = Map.empty\<rparr>"

text \<open>
  The Proxy-Agent constructor, from its member initialiser list: the base is built with
  \<^verbatim>\<open>{}\<close> (an empty \<^verbatim>\<open>std::function\<close>) in the place of \<^verbatim>\<open>can_onboard_func\<close>,
  \<^verbatim>\<open>m_toggle_cce\<close> takes the seventh argument, and both caches start empty.
\<close>

definition ec_pa_configurator_t ::
  "string \<Rightarrow> send_chirp_func \<Rightarrow> send_encap_dpp_func \<Rightarrow> send_act_frame_func \<Rightarrow>
   get_backhaul_sta_info_func \<Rightarrow> get_1905_info_func \<Rightarrow> toggle_cce_func \<Rightarrow>
   ec_pa_configurator_t" where
  "ec_pa_configurator_t mac_addr send_chirp_notification send_prox_encap_dpp_msg send_action_frame
     get_sta_info_func ieee1905_info_func toggle_cce_fn =
     ec_configurator_t.extend
       (ec_configurator_t mac_addr send_chirp_notification send_prox_encap_dpp_msg
          send_action_frame get_sta_info_func ieee1905_info_func None)
       (ec_pa_configurator_t.fields toggle_cce_fn Map.empty [])"

section \<open>Transport calls and external collaborators\<close>

text \<open>
  Each engine operation returns its success flag, the transport calls it made (in order) and
  the engine after the call. A send capability is called with the current frequency and no
  wait (both \<open>0\<close>).
\<close>

datatype transport_call =
    Chirp_notification bytes
  | Prox_encap_dpp_msg bytes "bytes option"
  | Action_frame string bytes nat nat

type_synonym 's result = "bool \<times> transport_call list \<times> 's"

text \<open>
  Modelled from the spec: the next message of an exchange goes either to the Enrollee over
  the wireless transport or to the Controller over the backhaul ("either (a) ... send the
  next wireless frame, or (b) repackage the payload as a backhaul-encapsulated message and
  relay it"). The flag returned is "the underlying transport call's success flag".
\<close>

datatype outgoing =
    Wireless string bytes
  | Backhaul bytes "bytes option"

definition send_outgoing ::
  "'a ec_configurator_t_scheme \<Rightarrow> outgoing \<Rightarrow> bool \<times> transport_call list" where
  "send_outgoing s out =
     (case out of
        Wireless dest frame \<Rightarrow>
          (m_send_action_frame s dest frame 0 0, [Action_frame dest frame 0 0])
      | Backhaul msg chirp \<Rightarrow>
          (m_send_prox_encap_dpp_msg s msg chirp, [Prox_encap_dpp_msg msg chirp]))"

text \<open>
  Modelled from the spec: the frame and TLV codec is an external collaborator ("bit-exact
  frame/TLV codecs, which this core calls through a defined boundary"). The engine is
  parameterised by it: the hash embedded in a presence announcement, the hash of a chirp TLV
  (\<open>None\<close> is a parse error), the transmitter address a raw wireless frame carries, the
  chirp TLV and the action frame the engine builds, the shape check of the four exchange
  frames, the payload of an encapsulated message, and the test of a cached reconfiguration
  frame against the Controller's signing key context.
\<close>

datatype frame_kind = Auth_response | Cfg_request | Cfg_result | Conn_status_result

datatype encap_payload =
    Configuration_result string bytes
  | Connection_status_result string bytes
  | Reconfiguration_auth string bytes

record ec_codec =
  presence_hash :: "bytes \<Rightarrow> string option"
  chirp_hash :: "bytes \<Rightarrow> string option"
  frame_source :: "bytes \<Rightarrow> string"
  chirp_tlv_of :: "string \<Rightarrow> bytes"
  action_frame_of :: "bytes \<Rightarrow> bytes"
  frame_ok :: "frame_kind \<Rightarrow> bytes \<Rightarrow> bool"
  parse_encap :: "bytes \<Rightarrow> encap_payload option"
  recfg_consistent :: "bytes \<Rightarrow> bytes \<Rightarrow> bool"

text \<open>
  Modelled from the spec: the handshake steps of the crypto collaborator. Creating the
  context for bootstrapping data and populating its ephemeral context can fail (\<open>None\<close>:
  "a context cannot be created", "CryptoFailure"); a successful step gives the advanced
  context and the next message.
\<close>

record ec_handshake =
  blank_connection_ctx :: "string \<Rightarrow> ec_connection_context_t"
  new_connection_ctx :: "ec_data_t \<Rightarrow> ec_connection_context_t option"
  populate_eph_ctx :: "ec_connection_context_t \<Rightarrow> ec_connection_context_t option"
  first_message :: "ec_connection_context_t \<Rightarrow> outgoing"
  advance :: "frame_kind \<Rightarrow> ec_connection_context_t \<Rightarrow> bytes \<Rightarrow>
              (ec_connection_context_t \<times> outgoing) option"

section \<open>Operations whose bodies are outside the headers\<close>

text \<open>
  Modelled from the spec: \<^verbatim>\<open>onboard_enrollee\<close> is declared in \<^verbatim>\<open>ec_configurator.h\<close>; its
  body is not there. "Must allocate a new connection context keyed by the address encoded in
  the bootstrapping data, populate the ephemeral context, and send the role-appropriate first
  protocol message. Fails if a context cannot be created or the initial send fails; on
  failure, any partially created context must be torn down." Tearing down is the engine's
  own \<^verbatim>\<open>teardown_connection\<close>.
\<close>

definition onboard_enrollee ::
  "ec_crypto \<Rightarrow> ec_handshake \<Rightarrow> ec_data_t \<Rightarrow> 'a ec_configurator_t_scheme \<Rightarrow>
   'a ec_configurator_t_scheme result" where
  "onboard_enrollee cr hs bootstrapping_data s =
     (let mac = boot_mac bootstrapping_data in
      case new_connection_ctx hs bootstrapping_data of
        None \<Rightarrow> (False, [], s)
      | Some c0 \<Rightarrow>
          (case populate_eph_ctx hs c0 of
             None \<Rightarrow>
               (False, [],
                teardown_connection cr mac (s\<lparr>m_connections := (m_connections s)(mac \<mapsto> c0)\<rparr>))
           | Some c1 \<Rightarrow>
               let s1 = s\<lparr>m_connections := (m_connections s)(mac \<mapsto> c1)\<rparr>;
                   sent = send_outgoing s1 (first_message hs c1)
               in if fst sent then (True, snd sent, s1)
                  else (False, snd sent, teardown_connection cr mac s1)))"

section \<open>Proxy-Agent role\<close>

text \<open>
  Modelled from the spec: \<^verbatim>\<open>handle_presence_announcement\<close> is declared in
  \<^verbatim>\<open>ec_pa_configurator.h\<close>; its body is not there. "Parse the embedded bootstrapping-key
  hash; cache the raw announcement frame in the chirp-hash cache keyed by that hash; relay a
  chirp notification upstream. Failure if the hash cannot be parsed or the relay send fails."
  The frame is cached as it was received, in the declared value type of the map. The
  connection context of the peer is located or created ("created on first contact"). (The
  member's comment in the header calls the cached values DPP Authentication Requests; the
  functions that fill and read the map are outside the headers, and the model follows the
  spec's account of them.)
\<close>

definition handle_presence_announcement ::
  "ec_codec \<Rightarrow> ec_handshake \<Rightarrow> bytes \<Rightarrow> string \<Rightarrow> ec_pa_configurator_t \<Rightarrow>
   ec_pa_configurator_t result" where
  "handle_presence_announcement cd hs frame src_mac s =
     (case presence_hash cd frame of
        None \<Rightarrow> (False, [], s)
      | Some h \<Rightarrow>
          let s1 = (case get_conn_ctx src_mac s of
                      None \<Rightarrow> s\<lparr>m_connections :=
                                 (m_connections s)(src_mac \<mapsto> blank_connection_ctx hs src_mac)\<rparr>
                    | Some c \<Rightarrow> s);
              s2 = s1\<lparr>m_chirp_hash_frame_map :=
                       (m_chirp_hash_frame_map s1)(h \<mapsto> frame)\<rparr>;
              tlv = chirp_tlv_of cd h
          in (m_send_chirp_notification s2 tlv, [Chirp_notification tlv], s2))"

text \<open>
  Modelled from the spec: \<^verbatim>\<open>process_chirp_notification\<close> (declared, body absent).
  "Recompute/extract the hash from the incoming chirp; look it up in the chirp-hash cache.
  Hit: reconstruct and send a wireless action frame to the original announcing address, then
  remove the cache entry. Miss: fail; no outstanding request to answer." The announcing
  address is the transmitter address the codec reads from the cached raw frame. The flag of a
  hit is the send's flag; "a parse or lookup failure returns failure without attempting a
  send".
\<close>

definition process_chirp_notification ::
  "ec_codec \<Rightarrow> bytes \<Rightarrow> ec_pa_configurator_t \<Rightarrow> ec_pa_configurator_t result" where
  "process_chirp_notification cd chirp_tlv s =
     (case chirp_hash cd chirp_tlv of
        None \<Rightarrow> (False, [], s)
      | Some h \<Rightarrow>
          (case m_chirp_hash_frame_map s h of
             None \<Rightarrow> (False, [], s)
           | Some raw \<Rightarrow>
               let dest = frame_source cd raw;
                   act = action_frame_of cd raw;
                   ok = m_send_action_frame s dest act 0 0
               in (ok, [Action_frame dest act 0 0],
                   s\<lparr>m_chirp_hash_frame_map := (m_chirp_hash_frame_map s)(h := None)\<rparr>)))"

text \<open>
  Modelled from the spec: the four exchange hooks of the Proxy-Agent (authentication
  response, configuration request, configuration result, connection-status result; declared,
  bodies absent) "follow a shared pattern: validate frame type/shape and length; locate ...
  the connection context for the peer address; either (a) complete one step of the
  wireless-side exchange ... or (b) ... relay it toward the Controller. Each returns the
  underlying transport call's success flag; a parse or lookup failure returns failure without
  attempting a send." A failed crypto step scrubs the ephemeral context
  (\<^verbatim>\<open>clear_conn_eph_ctx\<close>) before the handler returns failure.
\<close>

definition exchange_hook ::
  "ec_crypto \<Rightarrow> ec_codec \<Rightarrow> ec_handshake \<Rightarrow> frame_kind \<Rightarrow> bytes \<Rightarrow> string \<Rightarrow>
   ec_pa_configurator_t \<Rightarrow> ec_pa_configurator_t result" where
  "exchange_hook cr cd hs kind frame src_mac s =
     (if \<not> frame_ok cd kind frame then (False, [], s)
      else case get_conn_ctx src_mac s of
        None \<Rightarrow> (False, [], s)
      | Some c \<Rightarrow>
          (case advance hs kind c frame of
             None \<Rightarrow> (False, [], clear_conn_eph_ctx cr src_mac s)
           | Some (c', out) \<Rightarrow>
               let s1 = s\<lparr>m_connections := (m_connections s)(src_mac \<mapsto> c')\<rparr>;
                   sent = send_outgoing s1 out
               in (fst sent, snd sent, s1)))"

text \<open>
  Modelled from the spec: each of the four hooks is the shared pattern at its own frame kind.
  (The base class gives these hooks default bodies that return at once; the Proxy-Agent
  overrides all of them.)
\<close>

definition handle_auth_response ::
  "ec_crypto \<Rightarrow> ec_codec \<Rightarrow> ec_handshake \<Rightarrow> bytes \<Rightarrow> string \<Rightarrow>
   ec_pa_configurator_t \<Rightarrow> ec_pa_configurator_t result" where
  "handle_auth_response cr cd hs frame src_mac s = exchange_hook cr cd hs Auth_response frame src_mac s"

definition handle_cfg_request ::
  "ec_crypto \<Rightarrow> ec_codec \<Rightarrow> ec_handshake \<Rightarrow> bytes \<Rightarrow> string \<Rightarrow>
   ec_pa_configurator_t \<Rightarrow> ec_pa_configurator_t result" where
  "handle_cfg_request cr cd hs buff sa = exchange_hook cr cd hs Cfg_request buff sa"

definition handle_cfg_result ::
  "ec_crypto \<Rightarrow> ec_codec \<Rightarrow> ec_handshake \<Rightarrow> bytes \<Rightarrow> string \<Rightarrow>
   ec_pa_configurator_t \<Rightarrow> ec_pa_configurator_t result" where
  "handle_cfg_result cr cd hs frame sa = exchange_hook cr cd hs Cfg_result frame sa"

definition handle_connection_status_result ::
  "ec_crypto \<Rightarrow> ec_codec \<Rightarrow> ec_handshake \<Rightarrow> bytes \<Rightarrow> string \<Rightarrow>
   ec_pa_configurator_t \<Rightarrow> ec_pa_configurator_t result" where
  "handle_connection_status_result cr cd hs frame sa =
     exchange_hook cr cd hs Conn_status_result frame sa"

text \<open>
  Modelled from the spec: \<^verbatim>\<open>process_proxy_encap_dpp_msg\<close> (declared, body absent)
  "dispatches configuration-result / connection-status-result encapsulated payloads to the
  corresponding wireless send, and dispatches reconfiguration authentication payloads by
  scanning the reconfiguration-frame cache (not hash-indexed) for a frame consistent with the
  Controller's signing key context; this cache is not one-shot." The scan is a linear search
  for the first consistent entry; the spec gives the optional chirp value no effect.
\<close>

definition process_proxy_encap_dpp_msg ::
  "ec_codec \<Rightarrow> bytes \<Rightarrow> bytes option \<Rightarrow> ec_pa_configurator_t \<Rightarrow> ec_pa_configurator_t result" where
  "process_proxy_encap_dpp_msg cd encap_tlv chirp_tlv s =
     (case parse_encap cd encap_tlv of
        None \<Rightarrow> (False, [], s)
      | Some (Configuration_result dest frame) \<Rightarrow>
          (m_send_action_frame s dest frame 0 0, [Action_frame dest frame 0 0], s)
      | Some (Connection_status_result dest frame) \<Rightarrow>
          (m_send_action_frame s dest frame 0 0, [Action_frame dest frame 0 0], s)
      | Some (Reconfiguration_auth dest key_ctx) \<Rightarrow>
          (case find (recfg_consistent cd key_ctx) (m_stored_recfg_auth_frames s) of
             None \<Rightarrow> (False, [], s)
           | Some frame \<Rightarrow>
               (m_send_action_frame s dest frame 0 0, [Action_frame dest frame 0 0], s)))"

text \<open>
  The three handlers for proxied frames have their bodies in \<^verbatim>\<open>ec_configurator.h\<close>
  (\<^verbatim>\<open>return true;\<close>) and the Proxy-Agent header does not override them.
\<close>

definition handle_proxied_dpp_configuration_request ::
  "bytes \<Rightarrow> string \<Rightarrow> 'a ec_configurator_t_scheme \<Rightarrow> 'a ec_configurator_t_scheme result" where
  "handle_proxied_dpp_configuration_request encap_frame dest_mac s = (True, [], s)"

definition handle_proxied_config_result_frame ::
  "bytes \<Rightarrow> string \<Rightarrow> 'a ec_configurator_t_scheme \<Rightarrow> 'a ec_configurator_t_scheme result" where
  "handle_proxied_config_result_frame encap_frame dest_mac s = (True, [], s)"

definition handle_proxied_conn_status_result_frame ::
  "bytes \<Rightarrow> string \<Rightarrow> 'a ec_configurator_t_scheme \<Rightarrow> 'a ec_configurator_t_scheme result" where
  "handle_proxied_conn_status_result_frame encap_frame dest_mac s = (True, [], s)"

text \<open>
  Modelled from the spec: the callable bound to \<^verbatim>\<open>m_toggle_cce\<close> is supplied by the
  engine's owner. It sets the onboarding-availability (CCE) information element "in the
  beacon and probe response frames"; "if the operation fails, all CCE IEs are removed before
  the function exits". The radio state is the list of frame kinds that carry the IE; setting
  the IE on one frame kind can fail (\<open>set_ie\<close>), removing never does.
\<close>

datatype mgmt_frame = Beacon | Probe_response

fun add_cce_ies ::
  "(mgmt_frame \<Rightarrow> bool) \<Rightarrow> mgmt_frame list \<Rightarrow> mgmt_frame list \<Rightarrow> bool \<times> mgmt_frame list" where
  "add_cce_ies set_ie [] ies = (True, ies)"
| "add_cce_ies set_ie (f # fs) ies =
     (if set_ie f then add_cce_ies set_ie fs (List.insert f ies) else (False, ies))"

definition toggle_cce ::
  "(mgmt_frame \<Rightarrow> bool) \<Rightarrow> bool \<Rightarrow> mgmt_frame list \<Rightarrow> bool \<times> mgmt_frame list" where
  "toggle_cce set_ie enable ies =
     (if enable then
        (let r = add_cce_ies set_ie [Beacon, Probe_response] ies
         in if fst r then r else (False, []))
      else (True, []))"

definition cce_ie_count :: "mgmt_frame list \<Rightarrow> nat" where
  "cce_ie_count ies = length ies"

subsection \<open>Runs of the Proxy-Agent engine\<close>

text \<open>
  The public operations of a Proxy-Agent instance, and the engine after a sequence of them.
\<close>

datatype pa_op =
    Onboard_enrollee ec_data_t
  | Presence_announcement bytes string
  | Auth_response_frame bytes string
  | Cfg_request_frame bytes string
  | Cfg_result_frame bytes string
  | Connection_status_result_frame bytes string
  | Chirp_notification_tlv bytes
  | Proxy_encap_dpp_msg bytes "bytes option"
  | Proxied_dpp_configuration_request bytes string
  | Proxied_config_result_frame bytes string
  | Proxied_conn_status_result_frame bytes string
  | Teardown_connection string

definition pa_step ::
  "ec_crypto \<Rightarrow> ec_codec \<Rightarrow> ec_handshake \<Rightarrow> pa_op \<Rightarrow> ec_pa_configurator_t \<Rightarrow>
   ec_pa_configurator_t" where
  "pa_step cr cd hs op s =
     (case op of
        Onboard_enrollee b \<Rightarrow> snd (snd (onboard_enrollee cr hs b s))
      | Presence_announcement frame src \<Rightarrow> snd (snd (handle_presence_announcement cd hs frame src s))
      | Auth_response_frame frame src \<Rightarrow> snd (snd (handle_auth_response cr cd hs frame src s))
      | Cfg_request_frame buff sa \<Rightarrow> snd (snd (handle_cfg_request cr cd hs buff sa s))
      | Cfg_result_frame frame sa \<Rightarrow> snd (snd (handle_cfg_result cr cd hs frame sa s))
      | Connection_status_result_frame frame sa \<Rightarrow>
          snd (snd (handle_connection_status_result cr cd hs frame sa s))
      | Chirp_notification_tlv tlv \<Rightarrow> snd (snd (process_chirp_notification cd tlv s))
      | Proxy_encap_dpp_msg encap chirp \<Rightarrow> snd (snd (process_proxy_encap_dpp_msg cd encap chirp s))
      | Proxied_dpp_configuration_request frame dest \<Rightarrow>
          snd (snd (handle_proxied_dpp_configuration_request frame dest s))
      | Proxied_config_result_frame frame dest \<Rightarrow>
          snd (snd (handle_proxied_config_result_frame frame dest s))
      | Proxied_conn_status_result_frame frame dest \<Rightarrow>
          snd (snd (handle_proxied_conn_status_result_frame frame dest s))
      | Teardown_connection mac \<Rightarrow> teardown_connection cr mac s)"

fun pa_run ::
  "ec_crypto \<Rightarrow> ec_codec \<Rightarrow> ec_handshake \<Rightarrow> pa_op list \<Rightarrow> ec_pa_configurator_t \<Rightarrow>
   ec_pa_configurator_t" where
  "pa_run cr cd hs [] s = s"
| "pa_run cr cd hs (op # ops) s = pa_run cr cd hs ops (pa_step cr cd hs op s)"

text \<open>A sequence of evaluation calls on the backhaul entry point.\<close>

fun evaluate_all ::
  "ec_codec \<Rightarrow> (bytes \<times> bytes option) list \<Rightarrow> ec_pa_configurator_t \<Rightarrow> ec_pa_configurator_t" where
  "evaluate_all cd [] s = s"
| "evaluate_all cd (call # calls) s =
     evaluate_all cd calls (snd (snd (process_proxy_encap_dpp_msg cd (fst call) (snd call) s)))"

section \<open>Sample collaborators and engines\<close>

text \<open>
  Modelled from the spec: a pair of free helpers that scrub as the spec describes ("nonce and
  digest buffers, sized by their explicitly tracked lengths", the secret key material
  overwritten as well), and release the bootstrapping key of a freed connection context.
  They serve to run the engine on concrete inputs.
\<close>

definition scrub :: "nat \<Rightarrow> bytes \<Rightarrow> bytes" where
  "scrub n buf = replicate (min n (length buf)) 0 @ drop n buf"

definition scrubbing_crypto :: ec_crypto where
  "scrubbing_crypto =
     \<lparr>free_connection_ctx = (\<lambda>c. c\<lparr>boot_data := (boot_data c)\<lparr>responder_pub_key := []\<rparr>\<rparr>),
      free_ephemeral_context = (\<lambda>e nl dl.
        e\<lparr>e_nonce := scrub nl (e_nonce e),
          digest_buf := scrub dl (digest_buf e),
          session_key := scrub (length (session_key e)) (session_key e)\<rparr>)\<rparr>"

definition sample_boot :: ec_data_t where
  "sample_boot =
     \<lparr>boot_mac = ''11:22:33:44:55:66'', responder_pub_key = [4, 17, 34], ec_curve = 19,
      channel_hints = [6, 11]\<rparr>"

definition sample_ctx :: ec_connection_context_t where
  "sample_ctx =
     \<lparr>eph_ctx = \<lparr>e_nonce = [1, 2, 3, 4], digest_buf = [5, 6, 7], session_key = [8, 9]\<rparr>,
      boot_data = sample_boot, nonce_len = 4, digest_len = 3\<rparr>"

text \<open>
  A Proxy-Agent engine for the local address \<^verbatim>\<open>aa:bb:cc:dd:ee:ff\<close> whose sends succeed.
\<close>

definition sample_pa :: ec_pa_configurator_t where
  "sample_pa =
     ec_pa_configurator_t ''aa:bb:cc:dd:ee:ff'' (\<lambda>tlv. True) (\<lambda>msg chirp. True)
       (\<lambda>dest frame freq wait. True) (\<lambda>c. None) (\<lambda>c. None) (\<lambda>enable. True)"

definition connected_pa :: ec_pa_configurator_t where
  "connected_pa = sample_pa\<lparr>m_connections := [''11:22:33:44:55:66'' \<mapsto> sample_ctx]\<rparr>"

text \<open>
  A codec over a toy wire format: an announcement or a chirp whose first byte is \<open>1\<close>
  carries the hash \<^verbatim>\<open>H1\<close>, any other non-empty one the hash \<^verbatim>\<open>H2\<close>; a frame whose
  second byte is \<open>7\<close> was transmitted by the sample enrollee; the first byte of an
  encapsulated message selects its payload kind.
\<close>

definition sample_codec :: ec_codec where
  "sample_codec =
     \<lparr>presence_hash = (\<lambda>frame. case frame of
                          [] \<Rightarrow> None
                        | b # rest \<Rightarrow> Some (if b = 1 then ''H1'' else ''H2'')),
      chirp_hash = (\<lambda>tlv. case tlv of
                       [] \<Rightarrow> None
                     | b # rest \<Rightarrow> Some (if b = 1 then ''H1'' else ''H2'')),
      frame_source = (\<lambda>frame. case frame of
                         b # a # rest \<Rightarrow>
                           if a = 7 then ''11:22:33:44:55:66'' else ''66:55:44:33:22:11''
                       | _ \<Rightarrow> ''66:55:44:33:22:11''),
      chirp_tlv_of = (\<lambda>h. if h = ''H1'' then [1] else [2]),
      action_frame_of = (\<lambda>frame. frame),
      frame_ok = (\<lambda>kind frame. frame \<noteq> []),
      parse_encap = (\<lambda>tlv. case tlv of
                        [] \<Rightarrow> None
                      | b # rest \<Rightarrow>
                          if b = 1 then Some (Configuration_result ''11:22:33:44:55:66'' rest)
                          else if b = 2 then Some (Connection_status_result ''11:22:33:44:55:66'' rest)
                          else if b = 3 then Some (Reconfiguration_auth ''11:22:33:44:55:66'' rest)
                          else None),
      recfg_consistent = (\<lambda>key_ctx frame. take (length key_ctx) frame = key_ctx)\<rparr>"

definition sample_handshake :: ec_handshake where
  "sample_handshake =
     \<lparr>blank_connection_ctx = (\<lambda>mac.
        \<lparr>eph_ctx = \<lparr>e_nonce = [], digest_buf = [], session_key = []\<rparr>,
         boot_data = \<lparr>boot_mac = mac, responder_pub_key = [], ec_curve = 0, channel_hints = []\<rparr>,
         nonce_len = 0, digest_len = 0\<rparr>),
      new_connection_ctx = (\<lambda>b. if responder_pub_key b = [] then None
        else Some \<lparr>eph_ctx = \<lparr>e_nonce = [], digest_buf = [], session_key = []\<rparr>,
                   boot_data = b, nonce_len = 4, digest_len = 3\<rparr>),
      populate_eph_ctx = (\<lambda>c. Some (c\<lparr>eph_ctx := \<lparr>e_nonce = [1, 2, 3, 4], digest_buf = [5, 6, 7],
                                                session_key = [8, 9]\<rparr>\<rparr>)),
      first_message = (\<lambda>c. Wireless (boot_mac (boot_data c)) (e_nonce (eph_ctx c))),
      advance = (\<lambda>kind c frame. Some (c, Backhaul frame None))\<rparr>"




definition recfg_pa :: ec_pa_configurator_t where
  "recfg_pa = sample_pa\<lparr>m_stored_recfg_auth_frames := [[9, 9, 1], [7, 7, 2]]\<rparr>"

section \<open>Facts about the model\<close>

subsection \<open>Constructors and sample values\<close>

lemma pa_fields [simp]:
  "m_mac_addr (ec_pa_configurator_t a b c d e f g) = a"
  "m_send_chirp_notification (ec_pa_configurator_t a b c d e f g) = b"
  "m_send_prox_encap_dpp_msg (ec_pa_configurator_t a b c d e f g) = c"
  "m_send_action_frame (ec_pa_configurator_t a b c d e f g) = d"
  "m_can_onboard_additional_aps (ec_pa_configurator_t a b c d e f g) = None"
  "m_connections (ec_pa_configurator_t a b c d e f g) = Map.empty"
  "m_toggle_cce (ec_pa_configurator_t a b c d e f g) = g"
  "m_chirp_hash_frame_map (ec_pa_configurator_t a b c d e f g) = Map.empty"
  "m_stored_recfg_auth_frames (ec_pa_configurator_t a b c d e f g) = []"
  by (simp_all add: ec_pa_configurator_t_def ec_configurator_t_def ec_configurator_t.defs
      ec_pa_configurator_t.defs)

lemma sample_pa_fields:
  "m_connections sample_pa = Map.empty"
  "m_chirp_hash_frame_map sample_pa = Map.empty"
  "m_send_action_frame sample_pa = (\<lambda>dest frame freq wait. True)"
  "m_send_chirp_notification sample_pa = (\<lambda>tlv. True)"
  by (simp_all add: sample_pa_def)

lemma connected_pa_connections:
  "m_connections connected_pa = [''11:22:33:44:55:66'' \<mapsto> sample_ctx]"
  by (simp add: connected_pa_def)



lemma recfg_sample:
  "parse_encap sample_codec [3, 7, 7] = Some (Reconfiguration_auth ''11:22:33:44:55:66'' [7, 7])"
  "find (recfg_consistent sample_codec [7, 7]) (m_stored_recfg_auth_frames recfg_pa) =
     Some [7, 7, 2]"
  by (simp_all add: sample_codec_def recfg_pa_def)

subsection \<open>The scrubbing helpers\<close>

lemma scrub_scrub: "scrub n (scrub n buf) = scrub n buf"
  by (simp add: scrub_def min_def)

lemma length_scrub: "length (scrub n buf) = length buf"
  by (simp add: scrub_def)

lemma scrubbing_idem:
  "free_entry scrubbing_crypto (free_entry scrubbing_crypto c) = free_entry scrubbing_crypto c"
  by (simp add: free_entry_def scrubbing_crypto_def Let_def scrub_scrub length_scrub)

lemma free_entry_sample:
  "free_entry scrubbing_crypto sample_ctx =
     \<lparr>eph_ctx = \<lparr>e_nonce = [0, 0, 0, 0], digest_buf = [0, 0, 0], session_key = [0, 0]\<rparr>,
      boot_data = sample_boot\<lparr>responder_pub_key := []\<rparr>, nonce_len = 4, digest_len = 3\<rparr>"
  by (simp add: free_entry_def scrubbing_crypto_def sample_ctx_def scrub_def Let_def)


subsection \<open>Teardown\<close>

lemma teardown_miss: "m_connections s mac = None \<Longrightarrow> teardown_connection cr mac s = s"
  by (simp add: teardown_connection_def)

lemma teardown_connections:
  "m_connections (teardown_connection cr mac s) =
     (case m_connections s mac of
        None \<Rightarrow> m_connections s
      | Some c \<Rightarrow> (m_connections s)(mac \<mapsto> free_entry cr c))"
  by (simp add: teardown_connection_def split: option.splits)

lemma teardown_dom: "dom (m_connections (teardown_connection cr mac s)) = dom (m_connections s)"
  by (auto simp: teardown_connections split: option.splits)

text \<open>
  A second teardown finds the entry the first one left and frees it again: the two calls
  equal one exactly when freeing the freed entry changes nothing.
\<close>

lemma teardown_repeat_iff:
  "teardown_connection cr A (teardown_connection cr A s) = teardown_connection cr A s \<longleftrightarrow>
   (case m_connections s A of
      None \<Rightarrow> True
    | Some c \<Rightarrow> free_entry cr (free_entry cr c) = free_entry cr c)"
proof (cases "m_connections s A")
  case None
  then show ?thesis by (simp add: teardown_miss)
next
  case (Some c)
  let ?once = "teardown_connection cr A s"
  let ?twice = "teardown_connection cr A ?once"
  have once: "m_connections ?once A = Some (free_entry cr c)"
    using Some by (simp add: teardown_connections)
  have twice: "m_connections ?twice A = Some (free_entry cr (free_entry cr c))"
    using once by (simp add: teardown_connections)
  show ?thesis
  proof
    assume "?twice = ?once"
    then have "m_connections ?twice A = m_connections ?once A" by simp
    then show "case m_connections s A of None \<Rightarrow> True
               | Some c \<Rightarrow> free_entry cr (free_entry cr c) = free_entry cr c"
      using Some once twice by simp
  next
    assume "case m_connections s A of None \<Rightarrow> True
            | Some c \<Rightarrow> free_entry cr (free_entry cr c) = free_entry cr c"
    then show "?twice = ?once"
      using Some by (simp add: teardown_connection_def)
  qed
qed

lemma scrubbing_teardown_repeat:
  "teardown_connection scrubbing_crypto A (teardown_connection scrubbing_crypto A s) =
   teardown_connection scrubbing_crypto A s"
  by (simp add: teardown_repeat_iff scrubbing_idem split: option.splits)

lemma send_outgoing_connections [simp]:
  "send_outgoing (s\<lparr>m_connections := m\<rparr>) out = send_outgoing s out"
  by (simp add: send_outgoing_def split: outgoing.splits)

subsection \<open>The chirp-hash cache\<close>




subsection \<open>The backhaul entry point\<close>

lemma encap_state: "snd (snd (process_proxy_encap_dpp_msg cd encap chirp s)) = s"
  by (simp add: process_proxy_encap_dpp_msg_def split: option.splits encap_payload.splits)

lemma evaluate_all_state: "evaluate_all cd calls s = s"
  by (induction calls arbitrary: s) (simp_all add: encap_state)

subsection \<open>The admission-control binding is never rebound\<close>

lemma teardown_can_onboard [simp]:
  "m_can_onboard_additional_aps (teardown_connection cr mac s) = m_can_onboard_additional_aps s"
  by (simp add: teardown_connection_def split: option.splits)

lemma clear_can_onboard [simp]:
  "m_can_onboard_additional_aps (clear_conn_eph_ctx cr mac s) = m_can_onboard_additional_aps s"
  by (simp add: clear_conn_eph_ctx_def split: option.splits)

lemma onboard_can_onboard:
  "m_can_onboard_additional_aps (snd (snd (onboard_enrollee cr hs b s))) =
   m_can_onboard_additional_aps s"
  by (simp add: onboard_enrollee_def Let_def split: option.splits)

lemma presence_can_onboard:
  "m_can_onboard_additional_aps (snd (snd (handle_presence_announcement cd hs frame src s))) =
   m_can_onboard_additional_aps s"
  by (simp add: handle_presence_announcement_def Let_def split: option.splits)

lemma exchange_can_onboard:
  "m_can_onboard_additional_aps (snd (snd (exchange_hook cr cd hs kind frame src s))) =
   m_can_onboard_additional_aps s"
  by (simp add: exchange_hook_def Let_def split: option.splits prod.splits)

lemma chirp_can_onboard:
  "m_can_onboard_additional_aps (snd (snd (process_chirp_notification cd tlv s))) =
   m_can_onboard_additional_aps s"
  by (simp add: process_chirp_notification_def Let_def split: option.splits)

lemma pa_step_can_onboard:
  "m_can_onboard_additional_aps (pa_step cr cd hs op s) = m_can_onboard_additional_aps s"
  by (cases op)
     (simp_all add: pa_step_def onboard_can_onboard presence_can_onboard exchange_can_onboard
        chirp_can_onboard encap_state handle_auth_response_def handle_cfg_request_def
        handle_cfg_result_def handle_connection_status_result_def
        handle_proxied_dpp_configuration_request_def handle_proxied_config_result_frame_def
        handle_proxied_conn_status_result_frame_def)

lemma pa_run_can_onboard:
  "m_can_onboard_additional_aps (pa_run cr cd hs ops s) = m_can_onboard_additional_aps s"
  by (induction ops arbitrary: s) (simp_all add: pa_step_can_onboard)

lemma partial_cce:
  "add_cce_ies (\<lambda>f. f = Beacon) [Beacon, Probe_response] [] = (False, [Beacon])"
  by simp

section \<open>The claims\<close>

subsection \<open>Teardown and lookups in the base engine\<close>

text \<open>
  Claim C1, as the code has it. For every address \<open>A\<close> with an entry \<open>c\<close> in the connection
  map, \<^verbatim>\<open>teardown_connection(A)\<close> frees the entry in place: the context lookup for \<open>A\<close>
  right after it returns the freed context, whose ephemeral context is the result of
  \<^verbatim>\<open>free_ephemeral_context\<close> called with the nonce and digest lengths tracked in the
  context. The entry is not removed: the map has the same keys as before, and every other
  entry is unchanged.
\<close>

theorem teardown_keeps_entry:
  assumes "m_connections s A = Some c"
  shows "get_conn_ctx A (teardown_connection cr A s) = Some (free_entry cr c) \<and>
         get_eph_ctx A (teardown_connection cr A s) =
           Some (free_ephemeral_context cr (eph_ctx (free_connection_ctx cr c))
                   (nonce_len (free_connection_ctx cr c)) (digest_len (free_connection_ctx cr c))) \<and>
         dom (m_connections (teardown_connection cr A s)) = dom (m_connections s) \<and>
         (\<forall>B. B \<noteq> A \<longrightarrow> m_connections (teardown_connection cr A s) B = m_connections s B)"
proof -
  have entry: "m_connections (teardown_connection cr A s) = (m_connections s)(A \<mapsto> free_entry cr c)"
    using assms by (simp add: teardown_connections)
  have found: "get_conn_ctx A (teardown_connection cr A s) = Some (free_entry cr c)"
    by (simp add: get_conn_ctx_def entry)
  have eph: "get_eph_ctx A (teardown_connection cr A s) =
      Some (free_ephemeral_context cr (eph_ctx (free_connection_ctx cr c))
              (nonce_len (free_connection_ctx cr c)) (digest_len (free_connection_ctx cr c)))"
    by (simp add: get_eph_ctx_def found free_entry_def Let_def)
  have keys: "dom (m_connections (teardown_connection cr A s)) = dom (m_connections s)"
    by (rule teardown_dom)
  have others: "\<forall>B. B \<noteq> A \<longrightarrow> m_connections (teardown_connection cr A s) B = m_connections s B"
    by (simp add: entry)
  from found eph keys others show ?thesis
    by blast
qed

theorem teardown_keeps_entry_witness:
  "m_connections connected_pa ''11:22:33:44:55:66'' = Some sample_ctx \<and>
   get_conn_ctx ''11:22:33:44:55:66''
     (teardown_connection scrubbing_crypto ''11:22:33:44:55:66'' connected_pa) =
     Some \<lparr>eph_ctx = \<lparr>e_nonce = [0, 0, 0, 0], digest_buf = [0, 0, 0], session_key = [0, 0]\<rparr>,
           boot_data = sample_boot\<lparr>responder_pub_key := []\<rparr>, nonce_len = 4, digest_len = 3\<rparr>"
  using teardown_keeps_entry [of connected_pa "''11:22:33:44:55:66''" sample_ctx scrubbing_crypto]
  by (simp add: connected_pa_connections free_entry_sample)

text \<open>
  The lookup after a teardown is not a miss: an engine that holds a context for
  \<^verbatim>\<open>11:22:33:44:55:66\<close> still returns one for that address after the teardown.
\<close>

theorem teardown_not_found_counterexample:
  "get_conn_ctx ''11:22:33:44:55:66'' connected_pa = Some sample_ctx \<and>
   get_conn_ctx ''11:22:33:44:55:66''
     (teardown_connection scrubbing_crypto ''11:22:33:44:55:66'' connected_pa) \<noteq> None"
  by (simp add: get_conn_ctx_def teardown_connections connected_pa_connections)




subsection \<open>The chirp-hash cache\<close>





subsection \<open>The reconfiguration-frame cache\<close>

text \<open>
  Claim C5. An evaluation call on the backhaul entry point leaves the reconfiguration-frame
  cache as it was, so after any number of evaluation calls the cache is the same list, and a
  reconfiguration payload that matched the cached frame \<open>f\<close> before them matches \<open>f\<close>
  again: the engine again sends \<open>f\<close> in one wireless action frame.
\<close>

theorem recfg_cache_not_one_shot:
  assumes "parse_encap cd tlv = Some (Reconfiguration_auth dest key_ctx)"
      and "find (recfg_consistent cd key_ctx) (m_stored_recfg_auth_frames s) = Some f"
  shows "m_stored_recfg_auth_frames (evaluate_all cd calls s) = m_stored_recfg_auth_frames s \<and>
         fst (snd (process_proxy_encap_dpp_msg cd tlv chirp (evaluate_all cd calls s))) =
           [Action_frame dest f 0 0]"
proof -
  have same: "evaluate_all cd calls s = s"
    by (rule evaluate_all_state)
  have again: "fst (snd (process_proxy_encap_dpp_msg cd tlv chirp s)) = [Action_frame dest f 0 0]"
    using assms by (simp add: process_proxy_encap_dpp_msg_def)
  show ?thesis
    using again by (simp add: same)
qed

theorem recfg_cache_not_one_shot_witness:
  "parse_encap sample_codec [3, 7, 7] = Some (Reconfiguration_auth ''11:22:33:44:55:66'' [7, 7]) \<and>
   find (recfg_consistent sample_codec [7, 7]) (m_stored_recfg_auth_frames recfg_pa) =
     Some [7, 7, 2] \<and>
   m_stored_recfg_auth_frames
     (evaluate_all sample_codec [([3, 7, 7], None), ([3, 7, 7], None), ([1, 5], None)] recfg_pa) =
     [[9, 9, 1], [7, 7, 2]] \<and>
   fst (snd (process_proxy_encap_dpp_msg sample_codec [3, 7, 7] None
     (evaluate_all sample_codec [([3, 7, 7], None), ([3, 7, 7], None), ([1, 5], None)] recfg_pa))) =
     [Action_frame ''11:22:33:44:55:66'' [7, 7, 2] 0 0]"
  using recfg_cache_not_one_shot [OF recfg_sample,
          of "[([3, 7, 7], None), ([3, 7, 7], None), ([1, 5], None)]" None]
  by (simp add: recfg_sample) (simp add: recfg_pa_def)

subsection \<open>Lookup helpers\<close>

text \<open>
  Claim C6. For an address with no entry in the connection map, \<^verbatim>\<open>get_conn_ctx\<close>,
  \<^verbatim>\<open>get_eph_ctx\<close> and \<^verbatim>\<open>get_boot_data\<close> each return the null result; for an address with
  an entry they return the entry, its ephemeral context and its bootstrapping data.
\<close>

theorem lookup_helpers:
  "(m_connections s mac = None \<longrightarrow>
      get_conn_ctx mac s = None \<and> get_eph_ctx mac s = None \<and> get_boot_data mac s = None) \<and>
   (\<forall>c. m_connections s mac = Some c \<longrightarrow>
      get_conn_ctx mac s = Some c \<and> get_eph_ctx mac s = Some (eph_ctx c) \<and>
      get_boot_data mac s = Some (boot_data c))"
  by (simp add: get_conn_ctx_def get_eph_ctx_def get_boot_data_def)

theorem lookup_helpers_witness:
  "m_connections connected_pa ''00:00:00:00:00:01'' = None \<and>
   get_conn_ctx ''00:00:00:00:00:01'' connected_pa = None \<and>
   get_eph_ctx ''00:00:00:00:00:01'' connected_pa = None \<and>
   get_boot_data ''00:00:00:00:00:01'' connected_pa = None \<and>
   m_connections connected_pa ''11:22:33:44:55:66'' = Some sample_ctx \<and>
   get_conn_ctx ''11:22:33:44:55:66'' connected_pa = Some sample_ctx \<and>
   get_eph_ctx ''11:22:33:44:55:66'' connected_pa = Some (eph_ctx sample_ctx) \<and>
   get_boot_data ''11:22:33:44:55:66'' connected_pa = Some (boot_data sample_ctx)"
  using lookup_helpers [of connected_pa "''00:00:00:00:00:01''"]
        lookup_helpers [of connected_pa "''11:22:33:44:55:66''"]
  by (simp add: connected_pa_connections)

subsection \<open>Proxy-Agent hooks and capabilities\<close>

text \<open>
  Claim C8. In the Proxy-Agent engine, \<^verbatim>\<open>handle_auth_response\<close> for a source address with no
  connection context returns failure, makes no transport call (neither a wireless action
  frame nor a backhaul message) and leaves the engine unchanged.
\<close>

theorem auth_response_without_context:
  assumes "m_connections s src_mac = None"
  shows "handle_auth_response cr cd hs frame src_mac s = (False, [], s)"
proof -
  have miss: "get_conn_ctx src_mac s = None"
    using assms by (simp add: get_conn_ctx_def)
  show ?thesis
    by (simp add: handle_auth_response_def exchange_hook_def miss)
qed

theorem auth_response_without_context_witness:
  "m_connections sample_pa ''11:22:33:44:55:66'' = None \<and>
   handle_auth_response scrubbing_crypto sample_codec sample_handshake [5, 5]
     ''11:22:33:44:55:66'' sample_pa = (False, [], sample_pa)"
  using auth_response_without_context [of sample_pa "''11:22:33:44:55:66''" scrubbing_crypto
          sample_codec sample_handshake "[5, 5]"]
  by (simp add: sample_pa_fields)

text \<open>
  Claim C9. If enabling the onboarding-availability (CCE) information element fails, then when
  the toggle returns no frame kind carries the element: a check that counts the advertised
  elements finds zero, also when the element had been set on some frame kind before the
  failure (\<open>partial_cce\<close>).
\<close>

theorem toggle_cce_fail_closed:
  assumes "\<not> fst (toggle_cce set_ie True ies)"
  shows "cce_ie_count (snd (toggle_cce set_ie True ies)) = 0"
proof (cases "fst (add_cce_ies set_ie [Beacon, Probe_response] ies)")
  case True
  then have "fst (toggle_cce set_ie True ies)"
    by (simp add: toggle_cce_def Let_def)
  with assms show ?thesis by simp
next
  case False
  then have "toggle_cce set_ie True ies = (False, [])"
    by (simp add: toggle_cce_def Let_def)
  then show ?thesis by (simp add: cce_ie_count_def)
qed

theorem toggle_cce_fail_closed_witness:
  "\<not> fst (toggle_cce (\<lambda>f. f = Beacon) True []) \<and>
   cce_ie_count (snd (toggle_cce (\<lambda>f. f = Beacon) True [])) = 0"
  using toggle_cce_fail_closed [of "\<lambda>f. f = Beacon" "[]"]
  by (simp add: toggle_cce_def)

text \<open>
  Claim C10. A Proxy-Agent engine built by its constructor has no
  \<^verbatim>\<open>can_onboard_additional_aps\<close> binding (the constructor hands the base an empty function),
  and no sequence of engine operations binds one: the admission-control query is unavailable
  for the whole life of the instance.
\<close>

theorem pa_can_onboard_unbound:
  "m_can_onboard_additional_aps
     (pa_run cr cd hs ops
        (ec_pa_configurator_t mac_addr send_chirp_notification send_prox_encap_dpp_msg
           send_action_frame get_sta_info_func ieee1905_info_func toggle_cce_fn)) = None"
proof -
  have built: "m_can_onboard_additional_aps
      (ec_pa_configurator_t mac_addr send_chirp_notification send_prox_encap_dpp_msg
         send_action_frame get_sta_info_func ieee1905_info_func toggle_cce_fn) = None"
    by simp
  show ?thesis
    by (simp only: pa_run_can_onboard built)
qed

end
